theory Spec2Isabelle
  imports Complex_Main "HOL-Library.Word" "HOL-Library.Sublist"
begin

unbundle bit_operations_syntax

section \<open>Exceptions\<close>

text \<open>
  A Python exception as a value: the division by zero of the menu animation, or any
  other exception, named by its text.
\<close>

datatype py_exception = ZeroDivisionError | PyException string

section \<open>Overlay window (ui/overlay\_window.py, ui/circle\_menu.py)\<close>

text \<open>
  The overlay is a Tk window with a canvas. The model keeps what the methods read and
  write: the extended window style (a 32-bit value read and written through
  GetWindowLong/SetWindowLong), the alpha attribute, the canvas items with their
  identifiers and tags, the circle menu, the list of error markers and the
  menu-visible flag.
\<close>

definition WS_EX_TRANSPARENT :: "32 word" where
  "WS_EX_TRANSPARENT = 0x20"

definition WS_EX_LAYERED :: "32 word" where
  "WS_EX_LAYERED = 0x80000"

datatype canvas_item =
    Line int int int int
  | TextItem int int string
  | Rectangle int int int int

record canvas =
  items :: "(nat \<times> canvas_item \<times> string list) list"
  next_id :: nat

definition canvas_create :: "canvas_item \<Rightarrow> string list \<Rightarrow> canvas \<Rightarrow> nat \<times> canvas" where
  "canvas_create it tags c =
     (next_id c, c\<lparr>items := items c @ [(next_id c, it, tags)], next_id := Suc (next_id c)\<rparr>)"

definition canvas_delete :: "nat \<Rightarrow> canvas \<Rightarrow> canvas" where
  "canvas_delete i c = c\<lparr>items := filter (\<lambda>(j, it, tags). j \<noteq> i) (items c)\<rparr>"


text \<open>
  The circle menu: its centre, its visible flag, the number of button widgets it holds
  and the identifier of the pending animation timer. Its methods change the menu object
  in place, so a method that raises still leaves its changes behind: each returns the
  menu as it leaves it and the exception it raised, if any.
\<close>

record circle_menu =
  center_x :: int
  center_y :: int
  is_visible :: bool
  buttons :: nat
  animation_id :: "nat option"

definition CIRCLE_MENU_menu_items :: nat where
  "CIRCLE_MENU_menu_items = 3"

text \<open>
  \<open>_animate_show(step, max_steps)\<close> returns at once when \<open>step > max_steps\<close>;
  otherwise it computes \<open>step / max_steps\<close>, which raises when \<open>max_steps\<close> is zero,
  places the buttons and arms the timer of the next frame.
\<close>

definition animate_show :: "int \<Rightarrow> int \<Rightarrow> circle_menu \<Rightarrow> circle_menu \<times> py_exception option" where
  "animate_show step max_steps m =
     (if step > max_steps then (m, None)
      else if max_steps = 0 then (m, Some ZeroDivisionError)
      else (m\<lparr>animation_id := Some (nat (step + 1))\<rparr>, None))"

text \<open>\<open>CircleMenu.show\<close>, which ends with \<open>self._animate_show(0, 0)\<close>.\<close>

definition circle_show :: "circle_menu \<Rightarrow> circle_menu \<times> py_exception option" where
  "circle_show m =
     (if is_visible m then (m, None)
      else animate_show 0 0 (m\<lparr>is_visible := True, buttons := CIRCLE_MENU_menu_items\<rparr>))"



text \<open>An error is a Python dict from strings to strings.\<close>

type_synonym error_dict = "string \<rightharpoonup> string"

record overlay =
  ex_style :: "32 word"
  alpha :: real
  canvas :: canvas
  the_circle_menu :: "circle_menu option"
  error_markers :: "nat list"
  is_menu_visible :: bool

definition OVERLAY_opacity :: real where
  "OVERLAY_opacity = 0.0"


text \<open>
  \<open>__init__\<close>: \<open>style0\<close> is the extended style the window is created with, \<open>ok\<close> says
  whether the win32 calls of the try block succeed (the except branch only prints).
\<close>

definition overlay_init :: "32 word \<Rightarrow> bool \<Rightarrow> overlay" where
  "overlay_init style0 ok =
     \<lparr>ex_style = (if ok then style0 OR (WS_EX_LAYERED OR WS_EX_TRANSPARENT) else style0),
      alpha = OVERLAY_opacity,
      canvas = \<lparr>items = [], next_id = 1\<rparr>,
      the_circle_menu = None,
      error_markers = [],
      is_menu_visible = False\<rparr>"



definition clear_errors :: "overlay \<Rightarrow> overlay" where
  "clear_errors s =
     s\<lparr>canvas := fold canvas_delete (error_markers s) (canvas s), error_markers := []\<rparr>"

text \<open>The default label of \<open>error.get('type', ...)\<close>, as UTF-8 bytes.\<close>

definition default_error_label :: string where
  "default_error_label = [CHR 0xEC, CHR 0x98, CHR 0xA4, CHR 0xEB, CHR 0xA5, CHR 0x98]"

definition error_type :: "error_dict \<Rightarrow> string" where
  "error_type e = (case e ''type'' of Some t \<Rightarrow> t | None \<Rightarrow> default_error_label)"

text \<open>One iteration of the loop of \<open>show_errors\<close>, for the pair \<open>(i, error)\<close>.\<close>

definition draw_marker :: "int \<Rightarrow> int \<Rightarrow> nat \<times> error_dict \<Rightarrow> overlay \<Rightarrow> overlay" where
  "draw_marker cursor_x cursor_y ie s =
     (let marker_x = cursor_x;
          marker_y = cursor_y + 20 + (int (fst ie) * 25);
          (line, c1) = canvas_create (Line marker_x marker_y (marker_x + 100) marker_y) [] (canvas s);
          s1 = s\<lparr>canvas := c1, error_markers := error_markers s @ [line]\<rparr>;
          (text, c2) = canvas_create (TextItem marker_x (marker_y + 10) (error_type (snd ie))) [] (canvas s1)
      in s1\<lparr>canvas := c2, error_markers := error_markers s1 @ [text]\<rparr>)"

definition show_errors :: "error_dict list \<Rightarrow> int \<Rightarrow> int \<Rightarrow> overlay \<Rightarrow> overlay" where
  "show_errors errors cursor_x cursor_y s =
     fold (draw_marker cursor_x cursor_y) (enumerate 0 (take 5 errors)) (clear_errors s)"











section \<open>Strings\<close>

text \<open>
  A Python string is modelled by its UTF-8 bytes. \<open>str.lower\<close> is modelled on the ASCII
  letters; bytes of other characters are left as they are (the Korean keywords of the
  classifier have no case).
\<close>

definition lower_char :: "char \<Rightarrow> char" where
  "lower_char c =
     (if (65::nat) \<le> of_char c \<and> of_char c \<le> (90::nat) then char_of (of_char c + (32::nat)) else c)"

definition py_lower :: "string \<Rightarrow> string" where
  "py_lower s = map lower_char s"

text \<open>\<open>needle in haystack\<close> on strings: the substring test.\<close>

fun py_in :: "string \<Rightarrow> string \<Rightarrow> bool" where
  "py_in k [] = (k = [])"
| "py_in k (c # cs) = (prefix k (c # cs) \<or> py_in k cs)"

section \<open>Foreground window classifier (core/text\_monitor.py, core/text\_monitor\_improved.py)\<close>

type_synonym hwnd = nat

record window_info =
  hwnd :: hwnd
  title :: string
  class_name :: string
  rect :: "int \<times> int \<times> int \<times> int"

definition kw_hangul :: string where
  "kw_hangul = [CHR 0xED, CHR 0x95, CHR 0x9C, CHR 0xEA, CHR 0xB8, CHR 0x80]"

definition kw_memojang :: string where
  "kw_memojang = [CHR 0xEB, CHR 0xA9, CHR 0x94, CHR 0xEB, CHR 0xAA, CHR 0xA8, CHR 0xEC, CHR 0x9E, CHR 0xA5]"

definition editor_keywords :: "string list" where
  "editor_keywords =
     [kw_hangul, ''hwp'', ''word'', kw_memojang, ''notepad'',
      ''sublime'', ''vscode'', ''code'', ''atom'', ''notepad++'', ''editplus'']"

text \<open>The \<open>for keyword in editor_keywords\<close> loop, returning at the first match.\<close>

fun keyword_loop :: "string list \<Rightarrow> string \<Rightarrow> string \<Rightarrow> bool" where
  "keyword_loop [] t c = False"
| "keyword_loop (keyword # ks) t c =
     (if py_in keyword t \<or> py_in keyword c then True else keyword_loop ks t c)"

text \<open>
  \<open>is_text_editor\<close> is the same function in both monitor classes. Its argument is
  \<open>None\<close> or the dictionary built by \<open>get_active_window\<close>.
\<close>

definition is_text_editor :: "window_info option \<Rightarrow> bool" where
  "is_text_editor window_info =
     (case window_info of
        None \<Rightarrow> False
      | Some w \<Rightarrow> keyword_loop editor_keywords (py_lower (title w)) (py_lower (class_name w)))"

section \<open>Hotkey listener (core/keyboard\_hook.py, core/keyboard\_hook\_improved.py)\<close>

text \<open>
  A pynput key is a member of the \<open>Key\<close> enumeration, named here by its attribute, or a
  \<open>KeyCode\<close> with an optional virtual key code and an optional character.
  \<open>KeyCode.from_char\<close> builds a key code that has the character only.
\<close>

datatype key = Key string | KeyCode "nat option" "string option"

definition from_char :: "string \<Rightarrow> key" where
  "from_char c = KeyCode None (Some c)"

text \<open>
  The handlers and the chord parser call \<open>str.lower\<close> on the character of a key and on
  a key name. That function lowers every cased letter of Unicode; it is taken here as a
  parameter \<open>lw\<close>, so that what is proved of the handlers holds for the lowering of the
  running interpreter. On strings of ASCII characters it is \<open>py_lower\<close>, which the
  concrete scenarios below use.
\<close>

text \<open>The normalisation at the head of the press and release handlers.\<close>

fun normalize_key :: "(string \<Rightarrow> string) \<Rightarrow> key \<Rightarrow> key" where
  "normalize_key lw (Key n) = Key n"
| "normalize_key lw (KeyCode v None) = KeyCode v None"
| "normalize_key lw (KeyCode v (Some c)) =
     (if c \<noteq> [] then from_char (lw c) else KeyCode v (Some c))"

definition parse_key_name :: "(string \<Rightarrow> string) \<Rightarrow> string \<Rightarrow> key" where
  "parse_key_name lw key_name0 =
     (let key_name = lw key_name0
      in if key_name = ''alt'' then Key ''alt''
         else if key_name = ''ctrl'' then Key ''ctrl''
         else if key_name = ''shift'' then Key ''shift''
         else if key_name = ''enter'' then Key ''enter''
         else if key_name = ''esc'' then Key ''esc''
         else if key_name = ''space'' then Key ''space''
         else from_char key_name)"

definition parse_hotkey :: "(string \<Rightarrow> string) \<Rightarrow> string list \<Rightarrow> key set" where
  "parse_hotkey lw keys = set (map (parse_key_name lw) keys)"



definition HOTKEYS_toggle_menu :: "string list" where
  "HOTKEYS_toggle_menu = [''ctrl'', ''shift'', ''s'']"

definition HOTKEYS_exit_app :: "string list" where
  "HOTKEYS_exit_app = [''ctrl'', ''shift'', ''q'']"

text \<open>
  A callable is opaque; it is named by a number. A handler that matches a chord starts a
  thread running the callback: the model records which handler branch started it.
\<close>

type_synonym callable = nat

datatype thread_start = ToggleThread callable | ExitThread callable

record keyboard_hook =
  listener :: "nat option"
  callback :: "callable option"
  exit_callback :: "callable option"
  pressed_keys :: "key set"
  is_running :: bool
  hotkey_combo :: "key set"
  exit_combo :: "key set"

text \<open>
  \<open>KeyboardHook.__init__\<close>. The attribute \<open>exit_callback\<close> does not exist until
  \<open>set_exit_callback\<close> is called; the handler tests \<open>hasattr\<close>, so a missing attribute
  and \<open>None\<close> behave alike.
\<close>

definition keyboard_hook_init :: "(string \<Rightarrow> string) \<Rightarrow> keyboard_hook" where
  "keyboard_hook_init lw =
     \<lparr>listener = None, callback = None, exit_callback = None, pressed_keys = {},
      is_running = False,
      hotkey_combo = parse_hotkey lw HOTKEYS_toggle_menu,
      exit_combo = parse_hotkey lw HOTKEYS_exit_app\<rparr>"

definition set_callback :: "callable \<Rightarrow> keyboard_hook \<Rightarrow> keyboard_hook" where
  "set_callback cb h = h\<lparr>callback := Some cb\<rparr>"

definition set_exit_callback :: "callable \<Rightarrow> keyboard_hook \<Rightarrow> keyboard_hook" where
  "set_exit_callback cb h = h\<lparr>exit_callback := Some cb\<rparr>"

text \<open>\<open>KeyboardHook._on_press\<close>: the new hook state and the threads started.\<close>

definition on_press ::
  "(string \<Rightarrow> string) \<Rightarrow> key \<Rightarrow> keyboard_hook \<Rightarrow> keyboard_hook \<times> thread_start list" where
  "on_press lw key0 h =
     (let key = normalize_key lw key0;
          h1 = h\<lparr>pressed_keys := insert key (pressed_keys h)\<rparr>;
          (h2, st2) =
            (if hotkey_combo h1 \<subseteq> pressed_keys h1 then
               (case callback h1 of
                  Some cb \<Rightarrow> (h1\<lparr>pressed_keys := {}\<rparr>, [ToggleThread cb])
                | None \<Rightarrow> (h1, []))
             else (h1, []))
      in if exit_combo h2 \<subseteq> pressed_keys h2 then
           (case exit_callback h2 of
              Some cb \<Rightarrow> (h2\<lparr>pressed_keys := {}\<rparr>, st2 @ [ExitThread cb])
            | None \<Rightarrow> (h2, st2))
         else (h2, st2))"

definition on_release :: "(string \<Rightarrow> string) \<Rightarrow> key \<Rightarrow> keyboard_hook \<Rightarrow> keyboard_hook" where
  "on_release lw key0 h =
     (let key = normalize_key lw key0
      in if key \<in> pressed_keys h then h\<lparr>pressed_keys := pressed_keys h - {key}\<rparr> else h)"




text \<open>Key events as data, and the listener fed with a sequence of them.\<close>

datatype key_event = Press key | Release key

fun deliver ::
  "(string \<Rightarrow> string) \<Rightarrow> key_event \<Rightarrow> keyboard_hook \<times> thread_start list \<Rightarrow>
   keyboard_hook \<times> thread_start list" where
  "deliver lw (Press k) (h, st) = (let (h', new) = on_press lw k h in (h', st @ new))"
| "deliver lw (Release k) (h, st) = (on_release lw k h, st)"







subsection \<open>Starting and stopping the listener\<close>

text \<open>
  The operating system's side of \<open>KeyboardHook\<close>: every \<open>keyboard.Listener\<close> created
  so far, with its running flag. A listener is named by its position in the list.
  \<open>Listener.stop\<close> clears the flag.
\<close>

record hook_sys =
  hook :: keyboard_hook
  os_listeners :: "bool list"

definition hook_sys_init :: "(string \<Rightarrow> string) \<Rightarrow> hook_sys" where
  "hook_sys_init lw = \<lparr>hook = keyboard_hook_init lw, os_listeners = []\<rparr>"

definition start :: "hook_sys \<Rightarrow> hook_sys" where
  "start hs =
     (if is_running (hook hs) then hs
      else hs\<lparr>hook := (hook hs)\<lparr>is_running := True, listener := Some (length (os_listeners hs))\<rparr>,
              os_listeners := os_listeners hs @ [True]\<rparr>)"

definition stop :: "hook_sys \<Rightarrow> hook_sys" where
  "stop hs =
     (case listener (hook hs) of
        Some l \<Rightarrow> hs\<lparr>os_listeners := (os_listeners hs)[l := False],
                     hook := (hook hs)\<lparr>is_running := False\<rparr>\<rparr>
      | None \<Rightarrow> hs)"

definition is_active :: "hook_sys \<Rightarrow> bool" where
  "is_active hs = is_running (hook hs)"

datatype hook_op =
    HStart | HStop | HSetCallback callable | HSetExitCallback callable | HKey key_event

fun hook_step :: "(string \<Rightarrow> string) \<Rightarrow> hook_op \<Rightarrow> hook_sys \<Rightarrow> hook_sys" where
  "hook_step lw HStart hs = start hs"
| "hook_step lw HStop hs = stop hs"
| "hook_step lw (HSetCallback cb) hs = hs\<lparr>hook := set_callback cb (hook hs)\<rparr>"
| "hook_step lw (HSetExitCallback cb) hs = hs\<lparr>hook := set_exit_callback cb (hook hs)\<rparr>"
| "hook_step lw (HKey ev) hs = hs\<lparr>hook := fst (deliver lw ev (hook hs, []))\<rparr>"

definition hook_run :: "(string \<Rightarrow> string) \<Rightarrow> hook_op list \<Rightarrow> hook_sys \<Rightarrow> hook_sys" where
  "hook_run lw ops hs = fold (hook_step lw) ops hs"

text \<open>
  \<open>ImprovedKeyboardHook\<close>: \<open>hook_method\<close> is set once by \<open>_detect_available_library\<close>.
  The operating system's side holds the hotkeys registered with the keyboard library and
  the pynput listeners.
\<close>

datatype hook_method = KeyboardLib | Pynput

record improved_hook =
  i_callback :: "callable option"
  i_exit_callback :: "callable option"
  i_is_running :: bool
  i_hook_method :: "hook_method option"
  i_hotkey_combo :: "string list"
  i_exit_combo :: "string list"
  i_listener :: "nat option"

record improved_sys =
  ihook :: improved_hook
  kb_hotkeys :: "string list"
  pynput_listeners :: "bool list"

definition improved_hook_init :: "hook_method option \<Rightarrow> improved_hook" where
  "improved_hook_init m =
     \<lparr>i_callback = None, i_exit_callback = None, i_is_running = False, i_hook_method = m,
      i_hotkey_combo = HOTKEYS_toggle_menu, i_exit_combo = HOTKEYS_exit_app,
      i_listener = None\<rparr>"

fun format_hotkey_string :: "string list \<Rightarrow> string" where
  "format_hotkey_string [] = []"
| "format_hotkey_string [k] = k"
| "format_hotkey_string (k # ks) = k @ ''+'' @ format_hotkey_string ks"

text \<open>
  \<open>_start_with_keyboard_lib\<close>: \<open>ok1\<close> and \<open>ok2\<close> say whether the two calls of
  \<open>keyboard.add_hotkey\<close> succeed; when one raises, the except branch prints and the
  running flag stays as it was.
\<close>

definition start_with_keyboard_lib :: "bool \<Rightarrow> bool \<Rightarrow> improved_sys \<Rightarrow> improved_sys" where
  "start_with_keyboard_lib ok1 ok2 s =
     (let toggle_hotkey = format_hotkey_string (i_hotkey_combo (ihook s));
          exit_hotkey = format_hotkey_string (i_exit_combo (ihook s))
      in if \<not> ok1 then s
         else let s1 = s\<lparr>kb_hotkeys := kb_hotkeys s @ [toggle_hotkey]\<rparr>
              in if \<not> ok2 then s1
                 else s1\<lparr>kb_hotkeys := kb_hotkeys s1 @ [exit_hotkey],
                         ihook := (ihook s1)\<lparr>i_is_running := True\<rparr>\<rparr>)"

definition start_with_pynput :: "improved_sys \<Rightarrow> improved_sys" where
  "start_with_pynput s =
     s\<lparr>ihook := (ihook s)\<lparr>i_listener := Some (length (pynput_listeners s)), i_is_running := True\<rparr>,
       pynput_listeners := pynput_listeners s @ [True]\<rparr>"

definition improved_start :: "bool \<Rightarrow> bool \<Rightarrow> improved_sys \<Rightarrow> improved_sys" where
  "improved_start ok1 ok2 s =
     (if i_is_running (ihook s) then s
      else case i_hook_method (ihook s) of
             None \<Rightarrow> s
           | Some KeyboardLib \<Rightarrow> start_with_keyboard_lib ok1 ok2 s
           | Some Pynput \<Rightarrow> start_with_pynput s)"

definition improved_stop :: "improved_sys \<Rightarrow> improved_sys" where
  "improved_stop s =
     (if \<not> i_is_running (ihook s) then s
      else let s1 = (case i_hook_method (ihook s) of
                       Some KeyboardLib \<Rightarrow> s\<lparr>kb_hotkeys := []\<rparr>
                     | Some Pynput \<Rightarrow>
                         (case i_listener (ihook s) of
                            Some l \<Rightarrow> s\<lparr>pynput_listeners := (pynput_listeners s)[l := False]\<rparr>
                          | None \<Rightarrow> s)
                     | None \<Rightarrow> s)
           in s1\<lparr>ihook := (ihook s1)\<lparr>i_is_running := False\<rparr>\<rparr>)"

section \<open>Text capture strategies (core/text\_monitor\_improved.py)\<close>

text \<open>
  The platform calls either raise or return. \<open>send_message\<close> is the \<open>SendMessageW\<close> call
  with \<open>WM_GETTEXT\<close>: the length it returns and the value of the buffer afterwards.
  \<open>uia_element\<close> stands for loading UI Automation and resolving the element of the
  handle; \<open>uia_value\<close> and \<open>uia_text\<close> for reading the value pattern and the text
  pattern of that element.
\<close>

record capture_env =
  send_message :: "hwnd \<Rightarrow> py_exception + (int \<times> string)"
  uia_element :: "hwnd \<Rightarrow> py_exception + unit"
  uia_value :: "hwnd \<Rightarrow> py_exception + string"
  uia_text :: "hwnd \<Rightarrow> py_exception + string"

text \<open>Which strategy was invoked on which handle, in order.\<close>

datatype strategy_call = WindowMessage hwnd | UIAutomation hwnd

definition capture_text_via_window_message ::
  "capture_env \<Rightarrow> hwnd \<Rightarrow> strategy_call list \<Rightarrow> string \<times> strategy_call list" where
  "capture_text_via_window_message env h calls =
     (case send_message env h of
        Inl e \<Rightarrow> ([], calls @ [WindowMessage h])
      | Inr (len, buffer_value) \<Rightarrow>
          (if len > 0 then buffer_value else [], calls @ [WindowMessage h]))"

definition capture_text_via_uiautomation ::
  "capture_env \<Rightarrow> hwnd \<Rightarrow> strategy_call list \<Rightarrow> string \<times> strategy_call list" where
  "capture_text_via_uiautomation env h calls =
     (case uia_element env h of
        Inl e \<Rightarrow> ([], calls @ [UIAutomation h])
      | Inr u \<Rightarrow>
          (case uia_value env h of
             Inr text \<Rightarrow> (text, calls @ [UIAutomation h])
           | Inl e1 \<Rightarrow>
               (case uia_text env h of
                  Inr text \<Rightarrow> (text, calls @ [UIAutomation h])
                | Inl e2 \<Rightarrow> ([], calls @ [UIAutomation h]))))"

definition capture_text_smart ::
  "capture_env \<Rightarrow> hwnd \<Rightarrow> strategy_call list \<Rightarrow> string \<times> strategy_call list" where
  "capture_text_smart env h calls =
     (let (text, calls1) = capture_text_via_window_message env h calls
      in if text \<noteq> [] then (text, calls1)
         else let (text2, calls2) = capture_text_via_uiautomation env h calls1
              in if text2 \<noteq> [] then (text2, calls2) else ([], calls2))"

section \<open>Clipboard round trip (core/text\_monitor.py)\<close>

text \<open>
  The system clipboard is a string. Each call of pyperclip and pyautogui in
  \<open>capture_text_via_clipboard\<close> may raise; a call that raises has no effect. When the
  copy keystroke is delivered, the foreign application puts its selection on the
  clipboard (\<open>Some text\<close>) or ignores it (\<open>None\<close>).
\<close>

record clipboard_env =
  paste_backup_raises :: bool
  copy_empty_raises :: bool
  hotkey_select_all_raises :: bool
  hotkey_copy_raises :: bool
  paste_read_raises :: bool
  copy_restore_raises :: bool
  press_escape_raises :: bool
  selection :: "string option"

text \<open>The result is the captured text and the clipboard the function leaves behind.\<close>

definition capture_text_via_clipboard :: "clipboard_env \<Rightarrow> string \<Rightarrow> string \<times> string" where
  "capture_text_via_clipboard env clipboard =
     (let captured_text = [];
          old_clipboard = (if paste_backup_raises env then [] else clipboard)
      in if copy_empty_raises env then (captured_text, clipboard)
         else let clipboard1 = []
              in if hotkey_select_all_raises env then (captured_text, clipboard1)
                 else if hotkey_copy_raises env then (captured_text, clipboard1)
                 else let clipboard2 = (case selection env of Some t \<Rightarrow> t | None \<Rightarrow> clipboard1);
                          captured_text = (if paste_read_raises env then [] else clipboard2)
                      in if copy_restore_raises env then (captured_text, clipboard2)
                         else let clipboard3 = old_clipboard
                              in if press_escape_raises env then (captured_text, clipboard3)
                                 else (captured_text, clipboard3))"

definition no_faults :: "string option \<Rightarrow> clipboard_env" where
  "no_faults sel =
     \<lparr>paste_backup_raises = False, copy_empty_raises = False, hotkey_select_all_raises = False,
      hotkey_copy_raises = False, paste_read_raises = False, copy_restore_raises = False,
      press_escape_raises = False, selection = sel\<rparr>"

section \<open>Monitoring loop (core/text\_monitor.py, core/text\_monitor\_improved.py)\<close>

text \<open>
  Times are the seconds of \<open>time.time()\<close>, taken as real numbers. The fields of
  \<open>TextMonitor\<close>; \<open>ImprovedTextMonitor\<close> adds the typing state. \<open>monitor_thread\<close>
  names the thread object by its position in the list of threads created so far.
\<close>

record text_monitor =
  is_monitoring :: bool
  monitor_thread :: "nat option"
  last_text :: string
  last_cursor_pos :: "int \<times> int"
  text_change_callback :: "callable option"
  cursor_change_callback :: "callable option"
  check_interval :: real
  debounce_time :: real
  last_change_time :: real

record improved_text_monitor = text_monitor +
  is_typing :: bool
  typing_timeout :: real

definition TEXT_MONITOR_check_interval :: real where
  "TEXT_MONITOR_check_interval = 0.5"

definition TEXT_MONITOR_debounce_time :: real where
  "TEXT_MONITOR_debounce_time = 2.0"

definition text_monitor_init :: text_monitor where
  "text_monitor_init =
     \<lparr>is_monitoring = False, monitor_thread = None, last_text = [], last_cursor_pos = (0, 0),
      text_change_callback = None, cursor_change_callback = None,
      check_interval = TEXT_MONITOR_check_interval,
      debounce_time = TEXT_MONITOR_debounce_time,
      last_change_time = 0\<rparr>"

definition improved_text_monitor_init :: improved_text_monitor where
  "improved_text_monitor_init =
     \<lparr>is_monitoring = False, monitor_thread = None, last_text = [], last_cursor_pos = (0, 0),
      text_change_callback = None, cursor_change_callback = None,
      check_interval = TEXT_MONITOR_check_interval,
      debounce_time = TEXT_MONITOR_debounce_time,
      last_change_time = 0,
      is_typing = False, typing_timeout = 3.0\<rparr>"

definition set_text_change_callback :: "callable \<Rightarrow> improved_text_monitor \<Rightarrow> improved_text_monitor" where
  "set_text_change_callback cb m = m\<lparr>text_change_callback := Some cb\<rparr>"

definition set_cursor_change_callback :: "callable \<Rightarrow> improved_text_monitor \<Rightarrow> improved_text_monitor" where
  "set_cursor_change_callback cb m = m\<lparr>cursor_change_callback := Some cb\<rparr>"

definition get_last_text :: "'a text_monitor_scheme \<Rightarrow> string" where
  "get_last_text m = last_text m"

text \<open>\<open>detect_typing\<close>, given the clock it reads.\<close>

definition detect_typing :: "real \<Rightarrow> improved_text_monitor \<Rightarrow> bool" where
  "detect_typing current_time m =
     (if current_time - last_change_time m < typing_timeout m then True else False)"

text \<open>
  What one pass through the loop body observes: the result of \<open>get_active_window\<close>
  (\<open>None\<close> also when the query raised), the result of \<open>get_cursor_position\<close>, whether
  the cursor-changed callback raises when it is invoked, the clock read inside
  \<open>detect_typing\<close>, the clock read by the loop itself, and the platform behind the
  capture strategies.

  The body of the loop stands in a \<open>try\<close> whose \<open>except\<close> branch prints and goes on
  to the sleep. The window query, the pointer query and the capture strategies catch
  their own exceptions, so what can raise inside the body is a callback. When the
  cursor-changed callback raises, the rest of the pass (the typing test and the capture)
  is skipped. The text-changed callback is the last statement of the body: when it
  raises nothing is left to skip.
\<close>

record tick_env =
  active_window :: "window_info option"
  cursor_position :: "int \<times> int"
  cursor_callback_raises :: bool
  time_in_detect :: real
  time_in_loop :: real
  platform :: capture_env

text \<open>
  What a pass does that the outside can see: the callbacks it invokes and the capture
  it attempts.
\<close>

datatype monitor_event =
    CursorChanged callable int int
  | CaptureAttempt hwnd
  | TextChanged callable string
  | StopReturned

text \<open>
  The cursor part of the body: the monitor, the callback invoked, and whether that
  callback raised.
\<close>

definition cursor_part ::
  "int \<times> int \<Rightarrow> bool \<Rightarrow> 'a text_monitor_scheme \<Rightarrow>
   'a text_monitor_scheme \<times> monitor_event list \<times> bool" where
  "cursor_part cursor_pos raises m =
     (if cursor_pos \<noteq> last_cursor_pos m then
        (case cursor_change_callback m of
           Some cb \<Rightarrow>
             (m\<lparr>last_cursor_pos := cursor_pos\<rparr>,
              [CursorChanged cb (fst cursor_pos) (snd cursor_pos)], raises)
         | None \<Rightarrow> (m\<lparr>last_cursor_pos := cursor_pos\<rparr>, [], False))
      else (m, [], False))"

definition text_part ::
  "tick_env \<Rightarrow> window_info \<Rightarrow> improved_text_monitor \<Rightarrow> improved_text_monitor \<times> monitor_event list" where
  "text_part env window_info m =
     (if \<not> detect_typing (time_in_detect env) m then
        (let current_time = time_in_loop env
         in if current_time - last_change_time m \<ge> debounce_time m then
              (let h = hwnd window_info;
                   captured_text = fst (capture_text_smart (platform env) h [])
               in if captured_text \<noteq> [] \<and> captured_text \<noteq> last_text m then
                    (m\<lparr>last_text := captured_text, last_change_time := current_time\<rparr>,
                     CaptureAttempt h #
                     (case text_change_callback m of
                        Some cb \<Rightarrow> [TextChanged cb captured_text]
                      | None \<Rightarrow> []))
                  else (m, [CaptureAttempt h]))
            else (m, []))
      else (m, []))"

text \<open>The body of the \<open>while\<close> loop of \<open>ImprovedTextMonitor._monitoring_loop\<close>.\<close>

definition tick :: "tick_env \<Rightarrow> improved_text_monitor \<Rightarrow> improved_text_monitor \<times> monitor_event list" where
  "tick env m =
     (case active_window env of
        None \<Rightarrow> (m, [])
      | Some window_info \<Rightarrow>
          (if is_text_editor (Some window_info) then
             (let (m1, ev1, raised) = cursor_part (cursor_position env) (cursor_callback_raises env) m
              in if raised then (m1, ev1)
                 else (let (m2, ev2) = text_part env window_info m1 in (m2, ev1 @ ev2)))
           else (m, [])))"

text \<open>Whether a pass through the loop body calls the capture chain.\<close>

fun is_capture_attempt :: "monitor_event \<Rightarrow> bool" where
  "is_capture_attempt (CaptureAttempt h) = True"
| "is_capture_attempt (CursorChanged cb x y) = False"
| "is_capture_attempt (TextChanged cb t) = False"
| "is_capture_attempt StopReturned = False"

definition attempts_capture :: "tick_env \<Rightarrow> improved_text_monitor \<Rightarrow> bool" where
  "attempts_capture env m = list_ex is_capture_attempt (snd (tick env m))"

subsection \<open>The loop thread, start and stop\<close>

text \<open>
  A thread running \<open>_monitoring_loop\<close> is at the test of the \<open>while\<close>, inside the
  body (the body and the sleep that ends it), or has left the loop. The body never reads
  \<open>is_monitoring\<close>, so a write of the flag while the body runs has the effect of a
  write just before it: the body is one step.
\<close>

datatype loop_pc = AtLoopTest | InLoopBody | LoopExited

record monitor_sys =
  mon :: improved_text_monitor
  threads :: "loop_pc list"
  event_log :: "monitor_event list"

definition monitor_sys_init :: monitor_sys where
  "monitor_sys_init = \<lparr>mon = improved_text_monitor_init, threads = [], event_log = []\<rparr>"

definition thread_step :: "nat \<Rightarrow> tick_env \<Rightarrow> monitor_sys \<Rightarrow> monitor_sys" where
  "thread_step i env s =
     (if i < length (threads s) then
        (case threads s ! i of
           AtLoopTest \<Rightarrow>
             (if is_monitoring (mon s) then s\<lparr>threads := (threads s)[i := InLoopBody]\<rparr>
              else s\<lparr>threads := (threads s)[i := LoopExited]\<rparr>)
         | InLoopBody \<Rightarrow>
             (let (m', ev) = tick env (mon s)
              in s\<lparr>mon := m', event_log := event_log s @ ev, threads := (threads s)[i := AtLoopTest]\<rparr>)
         | LoopExited \<Rightarrow> s)
      else s)"

definition start_monitoring :: "monitor_sys \<Rightarrow> monitor_sys" where
  "start_monitoring s =
     (if is_monitoring (mon s) then s
      else s\<lparr>mon := (mon s)\<lparr>is_monitoring := True, monitor_thread := Some (length (threads s))\<rparr>,
             threads := threads s @ [AtLoopTest]\<rparr>)"

text \<open>
  \<open>join(timeout=2.0)\<close>: the caller waits while the joined thread runs; \<open>envs\<close> are the
  steps that thread takes before the join returns, because the thread has ended or
  because two seconds have passed.
\<close>

definition join :: "nat \<Rightarrow> tick_env list \<Rightarrow> monitor_sys \<Rightarrow> monitor_sys" where
  "join i envs s = fold (thread_step i) envs s"

definition stop_monitoring :: "tick_env list \<Rightarrow> monitor_sys \<Rightarrow> monitor_sys" where
  "stop_monitoring envs s =
     (let s1 = s\<lparr>mon := (mon s)\<lparr>is_monitoring := False\<rparr>\<rparr>
      in case monitor_thread (mon s1) of
           Some i \<Rightarrow> join i envs s1
         | None \<Rightarrow> s1)"

text \<open>
  A run of the system: calls of start and stop by the application, and steps of loop
  threads. The return of \<open>stop_monitoring\<close> is marked in the log.
\<close>

datatype monitor_action = Start | Stop "tick_env list" | Step nat tick_env

fun monitor_do :: "monitor_action \<Rightarrow> monitor_sys \<Rightarrow> monitor_sys" where
  "monitor_do Start s = start_monitoring s"
| "monitor_do (Stop envs) s = (let s' = stop_monitoring envs s in s'\<lparr>event_log := event_log s' @ [StopReturned]\<rparr>)"
| "monitor_do (Step i env) s = thread_step i env s"

definition monitor_run :: "monitor_action list \<Rightarrow> monitor_sys \<Rightarrow> monitor_sys" where
  "monitor_run acts s = fold monitor_do acts s"

text \<open>The events of a log that follow the last return of \<open>stop_monitoring\<close>.\<close>

fun after_stop :: "monitor_event list \<Rightarrow> monitor_event list" where
  "after_stop [] = []"
| "after_stop (e # es) = (if StopReturned \<in> set es then after_stop es else if e = StopReturned then es else [])"

fun is_callback :: "monitor_event \<Rightarrow> bool" where
  "is_callback (CursorChanged cb x y) = True"
| "is_callback (TextChanged cb t) = True"
| "is_callback (CaptureAttempt h) = False"
| "is_callback StopReturned = False"

subsection \<open>Forced capture\<close>

text \<open>
  \<open>force_capture\<close> as a method: it takes the monitor and returns the captured text, the
  monitor as it leaves it, and the callbacks it invoked. The clipboard variant of
  \<open>TextMonitor\<close> also returns the clipboard it leaves behind.
\<close>

definition force_capture ::
  "capture_env \<Rightarrow> hwnd \<Rightarrow> improved_text_monitor \<Rightarrow> string \<times> improved_text_monitor \<times> monitor_event list" where
  "force_capture env h m = (fst (capture_text_smart env h []), m, [])"

definition force_capture_clipboard ::
  "clipboard_env \<Rightarrow> string \<Rightarrow> text_monitor \<Rightarrow> (string \<times> string) \<times> text_monitor \<times> monitor_event list" where
  "force_capture_clipboard env clipboard m = (capture_text_via_clipboard env clipboard, m, [])"

text \<open>
  The body of the loop of \<open>TextMonitor._monitoring_loop\<close>, which has no typing test and
  captures through the clipboard.
\<close>

definition tick_clipboard ::
  "window_info option \<Rightarrow> int \<times> int \<Rightarrow> bool \<Rightarrow> real \<Rightarrow> clipboard_env \<Rightarrow> string \<Rightarrow> text_monitor \<Rightarrow>
   text_monitor \<times> string \<times> monitor_event list" where
  "tick_clipboard window cursor_pos raises current_time env clipboard m =
     (case window of
        None \<Rightarrow> (m, clipboard, [])
      | Some window_info \<Rightarrow>
          (if is_text_editor (Some window_info) then
             (let (m1, ev1, raised) = cursor_part cursor_pos raises m
              in if raised then (m1, clipboard, ev1)
                 else if current_time - last_change_time m1 \<ge> debounce_time m1 then
                   (let (captured_text, clipboard') = capture_text_via_clipboard env clipboard
                    in if captured_text \<noteq> [] \<and> captured_text \<noteq> last_text m1 then
                         (m1\<lparr>last_text := captured_text, last_change_time := current_time\<rparr>,
                          clipboard',
                          ev1 @ CaptureAttempt (hwnd window_info) #
                          (case text_change_callback m1 of
                             Some cb \<Rightarrow> [TextChanged cb captured_text]
                           | None \<Rightarrow> []))
                       else (m1, clipboard', ev1 @ [CaptureAttempt (hwnd window_info)]))
                 else (m1, clipboard, ev1))
           else (m, clipboard, [])))"

section \<open>Scenarios and invariants\<close>

text \<open>
  A platform whose window-message call gives \<open>r1\<close> and whose value pattern gives
  \<open>r2\<close>, for every handle; the element resolves and there is no text pattern.
\<close>

definition stub_env :: "(py_exception + (int \<times> string)) \<Rightarrow> (py_exception + string) \<Rightarrow> capture_env" where
  "stub_env r1 r2 =
     \<lparr>send_message = (\<lambda>h. r1), uia_element = (\<lambda>h. Inr ()), uia_value = (\<lambda>h. r2),
      uia_text = (\<lambda>h. Inl (PyException ''no text pattern''))\<rparr>"

definition notepad_window :: window_info where
  "notepad_window =
     \<lparr>hwnd = 7, title = ''Untitled - Notepad'', class_name = ''Notepad'', rect = (0, 0, 800, 600)\<rparr>"

text \<open>
  A pass of the loop at clock \<open>t\<close>, with a Notepad window in front, the pointer at
  the origin, callbacks that return normally and a window that answers the text query
  with \<open>Hello\<close>.
\<close>

definition scenario_env :: "real \<Rightarrow> tick_env" where
  "scenario_env t =
     \<lparr>active_window = Some notepad_window, cursor_position = (0, 0),
      cursor_callback_raises = False,
      time_in_detect = t, time_in_loop = t,
      platform = stub_env (Inr (5, ''Hello'')) (Inr ''World'')\<rparr>"

text \<open>
  The monitor as configured (check interval 0.5, debounce time 2.0, typing timeout 3.0),
  with both callbacks registered and a text change recorded at time 0.
\<close>

definition scenario_monitor :: improved_text_monitor where
  "scenario_monitor =
     improved_text_monitor_init
       \<lparr>last_text := ''old'', last_change_time := 0,
        text_change_callback := Some 1, cursor_change_callback := Some 2\<rparr>"

definition scenario_sys :: monitor_sys where
  "scenario_sys = \<lparr>mon = scenario_monitor, threads = [], event_log = []\<rparr>"

text \<open>
  The listener a \<open>KeyboardHook\<close> holds exists, and it runs exactly when the hook says
  it is running; a hook with no listener is not running.
\<close>

definition hook_inv :: "hook_sys \<Rightarrow> bool" where
  "hook_inv hs =
     (case listener (hook hs) of
        None \<Rightarrow> \<not> is_running (hook hs)
      | Some l \<Rightarrow> l < length (os_listeners hs) \<and> os_listeners hs ! l = is_running (hook hs))"

text \<open>
  A loop thread of a monitor whose flag is cleared, not inside the loop body: it is at
  the test of the \<open>while\<close>, has left the loop, or does not exist.
\<close>

definition idle_thread :: "nat \<Rightarrow> monitor_sys \<Rightarrow> bool" where
  "idle_thread j s =
     (\<not> is_monitoring (mon s) \<and> (j < length (threads s) \<longrightarrow> threads s ! j \<noteq> InLoopBody))"



section \<open>Properties of the overlay\<close>

lemma filter_not_in_Cons:
  "filter (\<lambda>(j, it, tags). j \<notin> set ms) (filter (\<lambda>(j, it, tags). j \<noteq> i) xs)
     = filter (\<lambda>(j, it, tags). j \<notin> set (i # ms)) xs"
  by (induction xs) auto

lemma canvas_delete_simps:
  "items (canvas_delete i c) = filter (\<lambda>(j, it, tags). j \<noteq> i) (items c)"
  "next_id (canvas_delete i c) = next_id c"
  by (simp_all add: canvas_delete_def)

lemma fold_canvas_delete:
  "items (fold canvas_delete ms c) = filter (\<lambda>(j, it, tags). j \<notin> set ms) (items c)
   \<and> next_id (fold canvas_delete ms c) = next_id c"
proof (induction ms arbitrary: c)
  case Nil
  then show ?case by simp
next
  case (Cons i ms)
  have "items (fold canvas_delete (i # ms) c)
      = filter (\<lambda>(j, it, tags). j \<notin> set ms) (filter (\<lambda>(j, it, tags). j \<noteq> i) (items c))"
    using Cons.IH [of "canvas_delete i c"] by (simp only: fold_simps canvas_delete_simps)
  moreover have "next_id (fold canvas_delete (i # ms) c) = next_id c"
    using Cons.IH [of "canvas_delete i c"] by (simp only: fold_simps canvas_delete_simps)
  ultimately show ?case
    by (simp only: filter_not_in_Cons)
qed

lemma draw_marker_canvas:
  "canvas (draw_marker x y (k, e) s) =
     \<lparr>items = items (canvas s) @
        [(next_id (canvas s), Line x (y + 20 + int k * 25) (x + 100) (y + 20 + int k * 25), []),
         (Suc (next_id (canvas s)), TextItem x (y + 20 + int k * 25 + 10) (error_type e), [])],
      next_id = Suc (Suc (next_id (canvas s)))\<rparr>
   \<and> error_markers (draw_marker x y (k, e) s)
       = error_markers s @ [next_id (canvas s), Suc (next_id (canvas s))]
   \<and> ex_style (draw_marker x y (k, e) s) = ex_style s
   \<and> is_menu_visible (draw_marker x y (k, e) s) = is_menu_visible s"
  by (simp add: draw_marker_def canvas_create_def Let_def)

lemma fold_draw_marker:
  "items (canvas (fold (draw_marker x y) (enumerate k es) s)) =
     items (canvas s) @
     concat (map (\<lambda>i. [(next_id (canvas s) + 2 * i,
                         Line x (y + 20 + int (k + i) * 25) (x + 100) (y + 20 + int (k + i) * 25), []),
                        (next_id (canvas s) + 2 * i + 1,
                         TextItem x (y + 20 + int (k + i) * 25 + 10) (error_type (es ! i)), [])])
               [0..<length es])
   \<and> next_id (canvas (fold (draw_marker x y) (enumerate k es) s)) = next_id (canvas s) + 2 * length es
   \<and> error_markers (fold (draw_marker x y) (enumerate k es) s)
       = error_markers s @ [next_id (canvas s)..<next_id (canvas s) + 2 * length es]
   \<and> ex_style (fold (draw_marker x y) (enumerate k es) s) = ex_style s
   \<and> is_menu_visible (fold (draw_marker x y) (enumerate k es) s) = is_menu_visible s"
proof (induction es arbitrary: k s)
  case Nil
  then show ?case by simp
next
  case (Cons e es)
  let ?s1 = "draw_marker x y (k, e) s"
  note d = draw_marker_canvas [of x y k e s]
  note ih = Cons.IH [of "Suc k" ?s1]
  have n1: "next_id (canvas ?s1) = next_id (canvas s) + 2"
    using d by simp
  have i1: "items (canvas ?s1) = items (canvas s) @
        [(next_id (canvas s), Line x (y + 20 + int k * 25) (x + 100) (y + 20 + int k * 25), []),
         (Suc (next_id (canvas s)), TextItem x (y + 20 + int k * 25 + 10) (error_type e), [])]"
    using d by simp
  have upt: "[next_id (canvas s)..<next_id (canvas s) + 2 * length (e # es)]
      = [next_id (canvas s), Suc (next_id (canvas s))]
        @ [next_id (canvas s) + 2..<next_id (canvas s) + 2 + 2 * length es]"
    by (simp add: upt_rec)
  show ?case
    using ih d n1 i1 upt
    by (simp add: map_upt_Suc del: upt_Suc)
qed

text \<open>
  Claim C10. \<open>show_errors\<close> first removes from the canvas every marker of the
  previous call, then draws the first five errors at most, and for each of them exactly
  two canvas items: the underline below the cursor and, ten pixels lower, the label with
  the type of the error. The canvas afterwards holds what it held before without the old
  markers, followed by these items; the marker list holds exactly the identifiers of the
  new items, \<open>2 * min (len(errors), 5)\<close> of them, whatever it held before, so markers
  do not pile up across calls.
\<close>

theorem C10_show_errors_markers:
  "items (canvas (show_errors errors x y s)) =
     filter (\<lambda>(j, it, tags). j \<notin> set (error_markers s)) (items (canvas s)) @
     concat (map (\<lambda>i. [(next_id (canvas s) + 2 * i,
                         Line x (y + 20 + int i * 25) (x + 100) (y + 20 + int i * 25), []),
                        (next_id (canvas s) + 2 * i + 1,
                         TextItem x (y + 20 + int i * 25 + 10) (error_type (errors ! i)), [])])
               [0..<min (length errors) 5])
   \<and> error_markers (show_errors errors x y s)
       = [next_id (canvas s)..<next_id (canvas s) + 2 * min (length errors) 5]
   \<and> length (error_markers (show_errors errors x y s)) = 2 * min (length errors) 5
   \<and> length (error_markers (show_errors errors x y (show_errors errors0 x0 y0 s)))
       = 2 * min (length errors) 5"
proof -
  let ?c = "clear_errors s"
  have c: "items (canvas ?c) = filter (\<lambda>(j, it, tags). j \<notin> set (error_markers s)) (items (canvas s))"
    "next_id (canvas ?c) = next_id (canvas s)" "error_markers ?c = []"
    using fold_canvas_delete [of "error_markers s" "canvas s"] by (simp_all add: clear_errors_def)
  note f = fold_draw_marker [of x y 0 "take 5 errors" ?c]
  have a0: "items (canvas (show_errors errors x y s)) =
     filter (\<lambda>(j, it, tags). j \<notin> set (error_markers s)) (items (canvas s)) @
     concat (map (\<lambda>i. [(next_id (canvas s) + 2 * i,
                         Line x (y + 20 + int i * 25) (x + 100) (y + 20 + int i * 25), []),
                        (next_id (canvas s) + 2 * i + 1,
                         TextItem x (y + 20 + int i * 25 + 10) (error_type (take 5 errors ! i)), [])])
               [0..<min (length errors) 5])"
    using f c by (simp add: show_errors_def)
  have nth: "map (\<lambda>i. [(next_id (canvas s) + 2 * i,
                         Line x (y + 20 + int i * 25) (x + 100) (y + 20 + int i * 25), []),
                        (next_id (canvas s) + 2 * i + 1,
                         TextItem x (y + 20 + int i * 25 + 10) (error_type (take 5 errors ! i)), [])])
               [0..<min (length errors) 5]
      = map (\<lambda>i. [(next_id (canvas s) + 2 * i,
                         Line x (y + 20 + int i * 25) (x + 100) (y + 20 + int i * 25), []),
                        (next_id (canvas s) + 2 * i + 1,
                         TextItem x (y + 20 + int i * 25 + 10) (error_type (errors ! i)), [])])
               [0..<min (length errors) 5]"
    by (rule map_cong) auto
  have a: "items (canvas (show_errors errors x y s)) =
     filter (\<lambda>(j, it, tags). j \<notin> set (error_markers s)) (items (canvas s)) @
     concat (map (\<lambda>i. [(next_id (canvas s) + 2 * i,
                         Line x (y + 20 + int i * 25) (x + 100) (y + 20 + int i * 25), []),
                        (next_id (canvas s) + 2 * i + 1,
                         TextItem x (y + 20 + int i * 25 + 10) (error_type (errors ! i)), [])])
               [0..<min (length errors) 5])"
    using a0 by (simp only: nth)
  have b: "error_markers (show_errors errors x y s)
       = [next_id (canvas s)..<next_id (canvas s) + 2 * min (length errors) 5]"
    using f c by (simp add: show_errors_def)
  have l: "\<And>t. length (error_markers (show_errors errors x y t)) = 2 * min (length errors) 5"
    using fold_draw_marker [of x y 0 "take 5 errors"] by (simp add: show_errors_def clear_errors_def)
  from a b l show ?thesis
    by simp
qed

theorem C10_show_errors_markers_witness:
  "items (canvas (show_errors [Map.empty(''type'' \<mapsto> ''grammar''), Map.empty] 100 100
      (show_errors [Map.empty(''type'' \<mapsto> ''spelling'')] 5 5 (overlay_init 0 True))))
     = [(3, Line 100 120 200 120, []), (4, TextItem 100 130 ''grammar'', []),
        (5, Line 100 145 200 145, []), (6, TextItem 100 155 default_error_label, [])]
   \<and> error_markers (show_errors [Map.empty(''type'' \<mapsto> ''grammar''), Map.empty] 100 100
      (show_errors [Map.empty(''type'' \<mapsto> ''spelling'')] 5 5 (overlay_init 0 True)))
     = [3, 4, 5, 6]"
proof -
  let ?s1 = "show_errors [Map.empty(''type'' \<mapsto> ''spelling'')] 5 5 (overlay_init 0 True)"
  have s1: "items (canvas ?s1) = [(1, Line 5 25 105 25, []), (2, TextItem 5 35 ''spelling'', [])]"
    "next_id (canvas ?s1) = 3" "error_markers ?s1 = [1, 2]"
    by (simp_all add: show_errors_def clear_errors_def draw_marker_def canvas_create_def
        overlay_init_def error_type_def Let_def)
  have upt: "[0..<min (length [Map.empty(''type'' \<mapsto> ''grammar''), Map.empty :: error_dict]) 5] = [0, 1]"
    "[3..<3 + 2 * min (length [Map.empty(''type'' \<mapsto> ''grammar''), Map.empty :: error_dict]) 5] = [3, 4, 5, 6]"
    by (simp_all add: upt_rec)
  show ?thesis
    using C10_show_errors_markers [of "[Map.empty(''type'' \<mapsto> ''grammar''), Map.empty]" 100 100 ?s1]
    by (simp add: s1 upt error_type_def)
qed



lemma circle_show_raises: "\<not> is_visible m \<Longrightarrow> snd (circle_show m) = Some ZeroDivisionError"
  by (simp add: circle_show_def animate_show_def)













section \<open>Properties of the classifier\<close>

lemma py_in_sublist: "py_in k t = sublist k t"
  by (induction t) (auto simp: sublist_Cons_right)

lemma keyword_loop_iff: "keyword_loop ks t c = (\<exists>k \<in> set ks. py_in k t \<or> py_in k c)"
  by (induction ks) auto

lemma sublist_py_lower:
  "sublist k (py_lower t) = (\<exists>s. py_lower s = k \<and> sublist s t)"
proof
  assume "sublist k (py_lower t)"
  then obtain s where "sublist s t" "k = map lower_char s"
    unfolding py_lower_def using sublist_map_rightE by blast
  then show "\<exists>s. py_lower s = k \<and> sublist s t"
    by (auto simp: py_lower_def)
next
  assume "\<exists>s. py_lower s = k \<and> sublist s t"
  then obtain s where s: "py_lower s = k" "sublist s t" by blast
  then obtain ps ss where "t = ps @ s @ ss" by (auto simp: sublist_def)
  then have "py_lower t = py_lower ps @ k @ py_lower ss"
    using s by (simp add: py_lower_def)
  then show "sublist k (py_lower t)" by (metis sublist_appendI)
qed

text \<open>
  Claim C6. \<open>is_text_editor\<close> is false on \<open>None\<close>, and on a window it is true exactly
  when the title or the class name has a contiguous piece \<open>s\<close> that is one of the
  configured keywords once lowered, that is, when it contains a keyword written in any
  mix of upper and lower case.
\<close>

theorem C6_is_text_editor:
  "is_text_editor None = False
   \<and> is_text_editor (Some w) =
       (\<exists>k \<in> set editor_keywords. \<exists>s. py_lower s = k \<and> (sublist s (title w) \<or> sublist s (class_name w)))"
  by (auto simp: is_text_editor_def keyword_loop_iff py_in_sublist sublist_py_lower)

theorem C6_is_text_editor_witness:
  "is_text_editor (Some \<lparr>hwnd = 7, title = ''Untitled - NOTEPAD'', class_name = ''Edit'', rect = (0, 0, 800, 600)\<rparr>)"
proof -
  have k: "''notepad'' \<in> set editor_keywords"
    by (simp add: editor_keywords_def)
  have l: "py_lower ''NOTEPAD'' = ''notepad''"
    by code_simp
  have s: "sublist ''NOTEPAD'' ''Untitled - NOTEPAD''"
    by code_simp
  show ?thesis
    using C6_is_text_editor [of "\<lparr>hwnd = 7, title = ''Untitled - NOTEPAD'', class_name = ''Edit'', rect = (0, 0, 800, 600)\<rparr>"]
      k l s
    by auto
qed

lemma is_text_editor_calculator:
  "\<not> is_text_editor (Some \<lparr>hwnd = 7, title = ''Calculator'', class_name = ''CalcFrame'', rect = (0, 0, 800, 600)\<rparr>)"
  by code_simp

section \<open>Properties of the capture strategies\<close>

text \<open>
  Claim C3. The chain asks the window-message strategy first. When that gives text, the
  chain returns it and the only strategy invoked is the window message: UI Automation
  is not called. When it gives nothing, the chain goes on to UI Automation and returns
  what that gives. A strategy whose platform call raises gives the empty string, so the
  chain goes on instead of aborting; when no strategy gives text the chain returns the
  empty string.
\<close>

theorem C3_capture_chain:
  "(fst (capture_text_via_window_message env h calls) \<noteq> [] \<longrightarrow>
      capture_text_smart env h calls =
        (fst (capture_text_via_window_message env h calls), calls @ [WindowMessage h]))
   \<and> (fst (capture_text_via_window_message env h calls) = [] \<longrightarrow>
      capture_text_smart env h calls =
        capture_text_via_uiautomation env h (calls @ [WindowMessage h]))
   \<and> (send_message env h = Inl e \<longrightarrow>
      capture_text_via_window_message env h calls = ([], calls @ [WindowMessage h]))
   \<and> (uia_element env h = Inl e \<longrightarrow>
      capture_text_via_uiautomation env h calls1 = ([], calls1 @ [UIAutomation h]))
   \<and> (fst (capture_text_via_window_message env h calls) = []
      \<and> fst (capture_text_via_uiautomation env h (calls @ [WindowMessage h])) = [] \<longrightarrow>
      fst (capture_text_smart env h calls) = [])"
  by (auto simp: capture_text_smart_def capture_text_via_window_message_def
      capture_text_via_uiautomation_def Let_def split: sum.splits prod.splits)

theorem C3_capture_chain_witness:
  "capture_text_smart (stub_env (Inr (5, ''Hello'')) (Inr ''World'')) 42 [] = (''Hello'', [WindowMessage 42])
   \<and> capture_text_smart (stub_env (Inl (PyException ''access denied'')) (Inr ''World'')) 42 []
       = (''World'', [WindowMessage 42, UIAutomation 42])"
proof -
  have a: "fst (capture_text_via_window_message (stub_env (Inr (5, ''Hello'')) (Inr ''World'')) 42 []) = ''Hello''"
    by (simp add: capture_text_via_window_message_def stub_env_def)
  have b: "fst (capture_text_via_window_message (stub_env (Inl (PyException ''access denied'')) (Inr ''World'')) 42 []) = []"
    by (simp add: capture_text_via_window_message_def stub_env_def)
  have c: "capture_text_via_uiautomation (stub_env (Inl (PyException ''access denied'')) (Inr ''World'')) 42 [WindowMessage 42]
      = (''World'', [WindowMessage 42, UIAutomation 42])"
    by (simp add: capture_text_via_uiautomation_def stub_env_def)
  show ?thesis
    using C3_capture_chain [of "stub_env (Inr (5, ''Hello'')) (Inr ''World'')" 42 "[]"]
      C3_capture_chain [of "stub_env (Inl (PyException ''access denied'')) (Inr ''World'')" 42 "[]"]
      a b c
    by simp
qed

text \<open>
  Claim C1 does not hold of the code. The restore \<open>pyperclip.copy(old_clipboard)\<close>
  stands inside the \<open>try\<close> block, after the keystrokes: when \<open>pyautogui.hotkey\<close>
  raises, the \<open>except\<close> branch prints and the function returns with the clipboard
  still cleared. Here the clipboard held \<open>abc\<close> and the select-all keystroke raises.
\<close>

theorem C1_clipboard_left_empty:
  "capture_text_via_clipboard ((no_faults (Some ''document text''))\<lparr>hotkey_select_all_raises := True\<rparr>) ''abc''
     = ([], [])
   \<and> snd (capture_text_via_clipboard ((no_faults (Some ''document text''))\<lparr>hotkey_select_all_raises := True\<rparr>) ''abc'')
     \<noteq> ''abc''"
  by (simp add: capture_text_via_clipboard_def no_faults_def)

text \<open>The restore does happen when only the read of the clipboard fails.\<close>

lemma clipboard_restored_without_faults:
  "\<not> paste_backup_raises env \<Longrightarrow> \<not> copy_empty_raises env \<Longrightarrow> \<not> hotkey_select_all_raises env \<Longrightarrow>
   \<not> hotkey_copy_raises env \<Longrightarrow> \<not> copy_restore_raises env \<Longrightarrow>
   snd (capture_text_via_clipboard env clipboard) = clipboard"
  by (simp add: capture_text_via_clipboard_def Let_def)

text \<open>
  Claim C9. \<open>force_capture\<close> returns the captured text and leaves the monitor as it
  was: \<open>last_text\<close> and \<open>last_change_time\<close> keep their values, no callback is
  invoked, and \<open>get_last_text\<close> answers the same before and after, for the capture
  chain of \<open>ImprovedTextMonitor\<close> and for the clipboard capture of \<open>TextMonitor\<close>.
\<close>

theorem C9_force_capture_frame:
  "(force_capture env h m = (captured, m', evs) \<longrightarrow>
      m' = m \<and> get_last_text m' = get_last_text m \<and> last_change_time m' = last_change_time m \<and> evs = [])
   \<and> (force_capture_clipboard cenv clipboard tm = (r, tm', evs') \<longrightarrow>
      tm' = tm \<and> get_last_text tm' = get_last_text tm \<and> last_change_time tm' = last_change_time tm \<and> evs' = [])"
  by (auto simp: force_capture_def force_capture_clipboard_def)

theorem C9_force_capture_frame_witness:
  "get_last_text (fst (snd (force_capture (stub_env (Inr (5, ''Hello'')) (Inr ''World'')) 42
       (improved_text_monitor_init\<lparr>last_text := ''old''\<rparr>)))) = ''old''
   \<and> fst (force_capture (stub_env (Inr (5, ''Hello'')) (Inr ''World'')) 42
       (improved_text_monitor_init\<lparr>last_text := ''old''\<rparr>)) = ''Hello''"
proof -
  have r: "force_capture (stub_env (Inr (5, ''Hello'')) (Inr ''World'')) 42
       (improved_text_monitor_init\<lparr>last_text := ''old''\<rparr>)
     = (''Hello'', fst (snd (force_capture (stub_env (Inr (5, ''Hello'')) (Inr ''World'')) 42
       (improved_text_monitor_init\<lparr>last_text := ''old''\<rparr>))), [])"
    by (simp add: force_capture_def capture_text_smart_def capture_text_via_window_message_def stub_env_def)
  have "get_last_text (fst (snd (force_capture (stub_env (Inr (5, ''Hello'')) (Inr ''World'')) 42
       (improved_text_monitor_init\<lparr>last_text := ''old''\<rparr>))))
     = get_last_text (improved_text_monitor_init\<lparr>last_text := ''old''\<rparr>)"
    using C9_force_capture_frame [of "stub_env (Inr (5, ''Hello'')) (Inr ''World'')" 42
       "improved_text_monitor_init\<lparr>last_text := ''old''\<rparr>" "''Hello''"
       "fst (snd (force_capture (stub_env (Inr (5, ''Hello'')) (Inr ''World'')) 42
       (improved_text_monitor_init\<lparr>last_text := ''old''\<rparr>)))" "[]"] r
    by blast
  moreover have "get_last_text (improved_text_monitor_init\<lparr>last_text := ''old''\<rparr>) = ''old''"
    by (simp add: get_last_text_def)
  moreover have "fst (force_capture (stub_env (Inr (5, ''Hello'')) (Inr ''World'')) 42
       (improved_text_monitor_init\<lparr>last_text := ''old''\<rparr>)) = ''Hello''"
    using r by (metis fst_conv)
  ultimately show ?thesis
    by simp
qed

section \<open>Properties of the monitoring loop\<close>

lemma is_text_editor_notepad: "is_text_editor (Some notepad_window)"
  by code_simp

lemma attempts_capture_iff:
  "attempts_capture env m =
     (is_text_editor (active_window env)
      \<and> \<not> (cursor_position env \<noteq> last_cursor_pos m \<and> cursor_change_callback m \<noteq> None
             \<and> cursor_callback_raises env)
      \<and> \<not> detect_typing (time_in_detect env) m
      \<and> debounce_time m \<le> time_in_loop env - last_change_time m)"
proof (cases "active_window env")
  case None
  then show ?thesis
    by (simp add: attempts_capture_def tick_def is_text_editor_def)
next
  case (Some w)
  then show ?thesis
    by (auto simp: attempts_capture_def tick_def text_part_def cursor_part_def detect_typing_def Let_def
        split: prod.splits option.splits if_splits)
qed

lemma scenario_attempts:
  "attempts_capture (scenario_env t) scenario_monitor = (3 \<le> t)"
  using is_text_editor_notepad
  by (auto simp: attempts_capture_iff scenario_env_def scenario_monitor_def improved_text_monitor_init_def
      detect_typing_def TEXT_MONITOR_debounce_time_def)

text \<open>
  Claim C4, as stated, fails at the tick at 2.1 seconds. The loop asks
  \<open>detect_typing\<close> first, which holds for three seconds after the last change
  (\<open>typing_timeout = 3.0\<close>), so with a change recorded at time 0 a pass at 2.1 seconds
  in a supported editor attempts no capture although the debounce time of 2 seconds has
  passed.
\<close>

theorem C4_counterexample:
  "debounce_time scenario_monitor = 2 \<and> last_change_time scenario_monitor = 0
   \<and> is_text_editor (active_window (scenario_env 2.1))
   \<and> \<not> attempts_capture (scenario_env 2.1) scenario_monitor"
proof -
  have "debounce_time scenario_monitor = 2 \<and> last_change_time scenario_monitor = 0"
    by (simp add: scenario_monitor_def improved_text_monitor_init_def TEXT_MONITOR_debounce_time_def)
  moreover have "is_text_editor (active_window (scenario_env 2.1))"
    using is_text_editor_notepad by (simp add: scenario_env_def)
  moreover have "\<not> attempts_capture (scenario_env 2.1) scenario_monitor"
    by (simp add: scenario_attempts)
  ultimately show ?thesis
    by simp
qed

text \<open>
  Claim C4, amended. A pass of the loop attempts a capture exactly when the foreground
  window is a supported editor, the pass is not cut short by an exception of the
  cursor-changed callback (invoked when the pointer has moved and the callback is
  registered), \<open>detect_typing\<close> is false (the clock minus \<open>last_change_time\<close> has
  reached \<open>typing_timeout\<close>) and the clock minus \<open>last_change_time\<close> has reached
  \<open>debounce_time\<close>. With the configured values (debounce time 2.0, typing timeout
  3.0), callbacks that return normally and a change recorded at time 0, the passes at
  1.5, 2.1 and 2.5 seconds attempt no capture and the pass at 3.0 seconds does.
\<close>

theorem C4_capture_gate:
  "attempts_capture env m =
     (is_text_editor (active_window env)
      \<and> \<not> (cursor_position env \<noteq> last_cursor_pos m \<and> cursor_change_callback m \<noteq> None
             \<and> cursor_callback_raises env)
      \<and> \<not> detect_typing (time_in_detect env) m
      \<and> debounce_time m \<le> time_in_loop env - last_change_time m)
   \<and> detect_typing now m = (now - last_change_time m < typing_timeout m)
   \<and> \<not> attempts_capture (scenario_env 1.5) scenario_monitor
   \<and> \<not> attempts_capture (scenario_env 2.1) scenario_monitor
   \<and> \<not> attempts_capture (scenario_env 2.5) scenario_monitor
   \<and> attempts_capture (scenario_env 3.0) scenario_monitor"
proof -
  have "\<not> attempts_capture (scenario_env 1.5) scenario_monitor"
    and "\<not> attempts_capture (scenario_env 2.1) scenario_monitor"
    and "\<not> attempts_capture (scenario_env 2.5) scenario_monitor"
    and "attempts_capture (scenario_env 3.0) scenario_monitor"
    by (simp_all add: scenario_attempts)
  moreover have "detect_typing now m = (now - last_change_time m < typing_timeout m)"
    by (simp add: detect_typing_def)
  ultimately show ?thesis
    using attempts_capture_iff [of env m] by blast
qed

theorem C4_capture_gate_witness:
  "attempts_capture (scenario_env 3.5) scenario_monitor"
proof -
  have "is_text_editor (active_window (scenario_env 3.5))"
    using is_text_editor_notepad by (simp add: scenario_env_def)
  moreover have "\<not> cursor_callback_raises (scenario_env 3.5)"
    by (simp add: scenario_env_def)
  moreover have "\<not> detect_typing (time_in_detect (scenario_env 3.5)) scenario_monitor"
    by (simp add: detect_typing_def scenario_env_def scenario_monitor_def improved_text_monitor_init_def)
  moreover have "debounce_time scenario_monitor
      \<le> time_in_loop (scenario_env 3.5) - last_change_time scenario_monitor"
    by (simp add: scenario_env_def scenario_monitor_def improved_text_monitor_init_def
        TEXT_MONITOR_debounce_time_def)
  ultimately show ?thesis
    using C4_capture_gate [of "scenario_env 3.5" scenario_monitor 0]
    by blast
qed

section \<open>Properties of starting and stopping\<close>

lemma tick_is_monitoring:
  "is_monitoring (fst (tick env m)) = is_monitoring m
   \<and> monitor_thread (fst (tick env m)) = monitor_thread m"
  by (auto simp: tick_def text_part_def cursor_part_def Let_def split: option.splits prod.splits if_splits)

lemma thread_step_flag:
  "is_monitoring (mon (thread_step j e s)) = is_monitoring (mon s)
   \<and> monitor_thread (mon (thread_step j e s)) = monitor_thread (mon s)
   \<and> length (threads (thread_step j e s)) = length (threads s)"
  using tick_is_monitoring [of e "mon s"]
  by (auto simp: thread_step_def Let_def split: loop_pc.splits prod.splits)

lemma fold_thread_step_flag:
  "is_monitoring (mon (fold (thread_step j) es s)) = is_monitoring (mon s)
   \<and> monitor_thread (mon (fold (thread_step j) es s)) = monitor_thread (mon s)"
  by (induction es arbitrary: s) (auto simp: thread_step_flag)

lemma idle_step: "idle_thread j s \<Longrightarrow> idle_thread j (thread_step j e s) \<and> event_log (thread_step j e s) = event_log s"
  by (auto simp: idle_thread_def thread_step_def Let_def split: loop_pc.splits prod.splits)

lemma idle_fold: "idle_thread j s \<Longrightarrow> event_log (fold (thread_step j) es s) = event_log s"
  by (induction es arbitrary: s) (auto simp: idle_step)

lemma stopped_step_idle: "\<not> is_monitoring (mon s) \<Longrightarrow> idle_thread j (thread_step j e s)"
  using tick_is_monitoring [of e "mon s"]
  by (auto simp: idle_thread_def thread_step_def Let_def split: loop_pc.splits prod.splits)

lemma stopped_fold:
  "\<not> is_monitoring (mon s) \<Longrightarrow> event_log (fold (thread_step j) (e # es) s) = event_log (thread_step j e s)"
  using idle_fold [OF stopped_step_idle] by simp

lemma stop_monitoring_flag: "\<not> is_monitoring (mon (stop_monitoring envs s))"
  by (auto simp: stop_monitoring_def join_def fold_thread_step_flag Let_def split: option.splits)

lemma clear_flag_inactive:
  assumes "\<not> is_monitoring (mon s)"
  shows "s\<lparr>mon := (mon s)\<lparr>is_monitoring := False\<rparr>\<rparr> = s"
proof -
  have "s\<lparr>mon := (mon s)\<lparr>is_monitoring := is_monitoring (mon s)\<rparr>\<rparr> = s"
    by simp
  with assms show ?thesis
    by simp
qed

lemma stop_monitoring_inactive:
  "\<not> is_monitoring (mon s) \<Longrightarrow>
   stop_monitoring envs s = (case monitor_thread (mon s) of Some i \<Rightarrow> join i envs s | None \<Rightarrow> s)"
  by (simp add: stop_monitoring_def clear_flag_inactive Let_def split: option.splits)

lemma stop_monitoring_idem: "stop_monitoring [] (stop_monitoring envs s) = stop_monitoring envs s"
  using stop_monitoring_flag [of envs s]
  by (simp add: stop_monitoring_inactive join_def split: option.splits)

text \<open>
  Claim C7, as stated, fails. The loop reads \<open>is_monitoring\<close> only at the test of the
  \<open>while\<close>; nothing inside the body reads it again. When \<open>stop_monitoring\<close> is
  called while a pass is inside the body and the join times out, the call returns and the
  pass then finishes: here it captures and invokes the text-changed callback after the
  return of \<open>stop_monitoring\<close>.
\<close>

theorem C7_counterexample:
  "after_stop (event_log (monitor_run
      [Start, Step 0 (scenario_env 10), Stop [], Step 0 (scenario_env 10)] scenario_sys))
   = [CaptureAttempt 7, TextChanged 1 ''Hello'']"
  using is_text_editor_notepad
  by (simp add: monitor_run_def scenario_sys_def start_monitoring_def stop_monitoring_def join_def
      thread_step_def tick_def cursor_part_def text_part_def detect_typing_def
      capture_text_smart_def capture_text_via_window_message_def stub_env_def
      scenario_env_def scenario_monitor_def improved_text_monitor_init_def notepad_window_def
      TEXT_MONITOR_debounce_time_def Let_def)

text \<open>
  Claim C7, amended. \<open>stop_monitoring\<close> leaves the flag cleared. After it has returned
  a loop thread adds events in its next step at most: a thread that was inside the loop
  body finishes that pass (and may invoke its callbacks), a thread that was not inside
  the body invokes nothing any more, and no thread starts a new pass. Calling
  \<open>stop_monitoring\<close> again changes nothing.
\<close>

theorem C7_stop_monitoring:
  "\<not> is_monitoring (mon (stop_monitoring envs s))
   \<and> event_log (fold (thread_step j) (e # es) (stop_monitoring envs s))
       = event_log (thread_step j e (stop_monitoring envs s))
   \<and> ((j < length (threads (stop_monitoring envs s)) \<longrightarrow>
        threads (stop_monitoring envs s) ! j \<noteq> InLoopBody) \<longrightarrow>
      event_log (fold (thread_step j) es (stop_monitoring envs s)) = event_log (stop_monitoring envs s))
   \<and> stop_monitoring [] (stop_monitoring envs s) = stop_monitoring envs s"
  using stop_monitoring_flag [of envs s] stopped_fold [of "stop_monitoring envs s" j e es]
    idle_fold [of j "stop_monitoring envs s" es] stop_monitoring_idem [of envs s]
  by (simp add: idle_thread_def)

theorem C7_stop_monitoring_witness:
  "event_log (fold (thread_step 0) [scenario_env 10, scenario_env 11, scenario_env 12]
      (stop_monitoring [] (monitor_run [Start, Step 0 (scenario_env 10)] scenario_sys)))
   = [CaptureAttempt 7, TextChanged 1 ''Hello'']"
proof -
  have "event_log (thread_step 0 (scenario_env 10)
      (stop_monitoring [] (monitor_run [Start, Step 0 (scenario_env 10)] scenario_sys)))
    = [CaptureAttempt 7, TextChanged 1 ''Hello'']"
    using is_text_editor_notepad
    by (simp add: monitor_run_def scenario_sys_def start_monitoring_def stop_monitoring_def join_def
        thread_step_def tick_def cursor_part_def text_part_def detect_typing_def
        capture_text_smart_def capture_text_via_window_message_def stub_env_def
        scenario_env_def scenario_monitor_def improved_text_monitor_init_def notepad_window_def
        TEXT_MONITOR_debounce_time_def Let_def)
  then show ?thesis
    using C7_stop_monitoring [of "[]" "monitor_run [Start, Step 0 (scenario_env 10)] scenario_sys"
        0 "scenario_env 10" "[scenario_env 11, scenario_env 12]"]
    by simp
qed

lemma on_press_frame:
  "listener (fst (on_press lw k h)) = listener h \<and> is_running (fst (on_press lw k h)) = is_running h"
  by (auto simp: on_press_def Let_def split: prod.splits option.splits if_splits)

lemma on_release_frame:
  "listener (on_release lw k h) = listener h \<and> is_running (on_release lw k h) = is_running h"
  by (simp add: on_release_def Let_def)

lemma hook_inv_step: "hook_inv hs \<Longrightarrow> hook_inv (hook_step lw op hs)"
proof (cases op)
  case HStart
  then show "hook_inv hs \<Longrightarrow> hook_inv (hook_step lw op hs)"
    by (auto simp: hook_inv_def start_def nth_append split: option.splits)
next
  case HStop
  then show "hook_inv hs \<Longrightarrow> hook_inv (hook_step lw op hs)"
    by (auto simp: hook_inv_def stop_def split: option.splits)
next
  case (HSetCallback cb)
  then show "hook_inv hs \<Longrightarrow> hook_inv (hook_step lw op hs)"
    by (auto simp: hook_inv_def set_callback_def split: option.splits)
next
  case (HSetExitCallback cb)
  then show "hook_inv hs \<Longrightarrow> hook_inv (hook_step lw op hs)"
    by (auto simp: hook_inv_def set_exit_callback_def split: option.splits)
next
  case (HKey ev)
  then show "hook_inv hs \<Longrightarrow> hook_inv (hook_step lw op hs)"
    using on_press_frame on_release_frame
    by (cases ev) (auto simp: hook_inv_def split: option.splits prod.splits)
qed

lemma hook_inv_run: "hook_inv hs \<Longrightarrow> hook_inv (hook_run lw ops hs)"
  unfolding hook_run_def
  by (induction ops arbitrary: hs) (auto simp: hook_inv_step)

lemma hook_inv_init: "hook_inv (hook_sys_init lw)"
  by (simp add: hook_inv_def hook_sys_init_def keyboard_hook_init_def)

lemma stop_inactive:
  assumes "hook_inv hs" and "\<not> is_running (hook hs)"
  shows "stop hs = hs"
proof (cases "listener (hook hs)")
  case None
  then show ?thesis by (simp add: stop_def)
next
  case (Some l)
  with assms have l: "l < length (os_listeners hs)" "os_listeners hs ! l = False"
    by (auto simp: hook_inv_def)
  then have "(os_listeners hs)[l := False] = os_listeners hs"
    by (metis list_update_id)
  moreover have "(hook hs)\<lparr>is_running := False\<rparr> = hook hs"
  proof -
    have "(hook hs)\<lparr>is_running := is_running (hook hs)\<rparr> = hook hs" by simp
    with assms(2) show ?thesis by simp
  qed
  ultimately show ?thesis
    using Some by (simp add: stop_def)
qed

lemma improved_stop_inactive: "\<not> i_is_running (ihook s) \<Longrightarrow> improved_stop s = s"
  by (simp add: improved_stop_def)

text \<open>
  Claim C8. \<open>start\<close> on a running \<open>KeyboardHook\<close> and on a running
  \<open>ImprovedKeyboardHook\<close> returns with the hook and the operating system's listeners
  and hotkeys as they were; \<open>stop\<close> on a hook that is not running does the same, for
  every state the \<open>KeyboardHook\<close> can reach. \<open>start_monitoring\<close> on a running
  monitor changes nothing; \<open>stop_monitoring\<close> on a monitor that is not running only
  waits for its thread, and changes nothing when that thread has nothing left to do.
\<close>

theorem C8_start_stop_noop:
  "(is_running (hook hs) \<longrightarrow> start hs = hs)
   \<and> (\<not> is_running (hook (hook_run lw ops (hook_sys_init lw))) \<longrightarrow>
        stop (hook_run lw ops (hook_sys_init lw)) = hook_run lw ops (hook_sys_init lw))
   \<and> (i_is_running (ihook ihs) \<longrightarrow> improved_start ok1 ok2 ihs = ihs)
   \<and> (\<not> i_is_running (ihook ihs) \<longrightarrow> improved_stop ihs = ihs)
   \<and> (is_monitoring (mon ms) \<longrightarrow> start_monitoring ms = ms)
   \<and> (\<not> is_monitoring (mon ms) \<longrightarrow>
        stop_monitoring envs ms =
          (case monitor_thread (mon ms) of Some i \<Rightarrow> join i envs ms | None \<Rightarrow> ms)
        \<and> stop_monitoring [] ms = ms)"
  using stop_inactive [OF hook_inv_run [OF hook_inv_init, where lw = lw and ops = ops]]
    stop_monitoring_inactive [of ms envs] stop_monitoring_inactive [of ms "[]"]
  by (auto simp: start_def improved_start_def improved_stop_def start_monitoring_def join_def
      split: option.splits)

theorem C8_start_stop_noop_witness:
  "start (start (hook_sys_init py_lower)) = start (hook_sys_init py_lower)
   \<and> stop (hook_run py_lower [HStart, HStop] (hook_sys_init py_lower)) = hook_run py_lower [HStart, HStop] (hook_sys_init py_lower)
   \<and> stop (hook_sys_init py_lower) = hook_sys_init py_lower"
proof -
  have a: "is_running (hook (start (hook_sys_init py_lower)))"
    by (simp add: start_def hook_sys_init_def keyboard_hook_init_def)
  have b: "\<not> is_running (hook (hook_run py_lower [HStart, HStop] (hook_sys_init py_lower)))"
    by (simp add: hook_run_def start_def stop_def hook_sys_init_def keyboard_hook_init_def)
  have c: "\<not> is_running (hook (hook_run py_lower [] (hook_sys_init py_lower)))"
    by (simp add: hook_run_def hook_sys_init_def keyboard_hook_init_def)
  show ?thesis
    using C8_start_stop_noop [of "start (hook_sys_init py_lower)" py_lower "[HStart, HStop]"] a b
      C8_start_stop_noop [of "start (hook_sys_init py_lower)" py_lower "[]"] c
    by (simp add: hook_run_def)
qed

section \<open>Properties of the hotkey listener\<close>






























end
